theory Spec2Isabelle
  imports Complex_Main "HOL-Library.Multiset"
begin

section \<open>JavaScript values\<close>

text \<open>
  The dashboard is written in JavaScript. The records it aggregates arrive as parsed JSON,
  so a field holds \<open>undefined\<close> (absent), \<open>null\<close>, a boolean, a number or a string.
  Numbers are IEEE doubles in the program; here a number is a real, so \<open>NaN\<close> and the
  infinities are not represented (JSON cannot carry them) and rounding is not modelled.
  Strings are lists of characters; upper-casing acts on the ASCII letters and leaves every
  other character as it is.
\<close>

datatype jsval = JUndefined | JNull | JBool bool | JNum real | JStr string

text \<open>\<open>!v\<close>: the values that count as false.\<close>

fun js_not :: "jsval \<Rightarrow> bool" where
  "js_not JUndefined = True"
| "js_not JNull = True"
| "js_not (JBool b) = (b = False)"
| "js_not (JNum r) = (r = 0)"
| "js_not (JStr s) = (s = [])"

text \<open>\<open>typeof v === 'number'\<close>.\<close>

fun typeof_number :: "jsval \<Rightarrow> bool" where
  "typeof_number (JNum r) = True"
| "typeof_number v = False"

text \<open>\<open>a || b\<close> on numbers: \<open>b\<close> when \<open>a\<close> is zero.\<close>

definition num_or :: "real \<Rightarrow> real \<Rightarrow> real" where
  "num_or a b = (if a = 0 then b else a)"

text \<open>\<open>x || d\<close> where \<open>x\<close> is a number or \<open>undefined\<close>.\<close>

definition undef_or :: "real option \<Rightarrow> real \<Rightarrow> real" where
  "undef_or x d = (case x of None \<Rightarrow> d | Some a \<Rightarrow> num_or a d)"

section \<open>Strings and arrays\<close>

text \<open>\<open>xs[i]\<close>: \<open>undefined\<close> (here \<open>None\<close>) outside the array.\<close>

definition at_index :: "'a list \<Rightarrow> int \<Rightarrow> 'a option" where
  "at_index xs i = (if 0 \<le> i \<and> i < int (length xs) then Some (xs ! nat i) else None)"

text \<open>\<open>s.split(c)\<close> for a one-character separator: always at least one part.\<close>

fun split :: "char \<Rightarrow> string \<Rightarrow> string list" where
  "split c [] = [[]]"
| "split c (x # xs) =
     (if x = c then [] # split c xs
      else (case split c xs of [] \<Rightarrow> [[x]] | p # ps \<Rightarrow> (x # p) # ps))"

text \<open>\<open>parts.join(sep)\<close>.\<close>

fun join :: "string \<Rightarrow> string list \<Rightarrow> string" where
  "join sep [] = []"
| "join sep [p] = p"
| "join sep (p # q # ps) = p @ sep @ join sep (q # ps)"

definition is_digit :: "char \<Rightarrow> bool" where
  "is_digit c = (c \<in> set ''0123456789'')"

text \<open>\<open>s.match(/^\d+$/)\<close>: one or more digits and nothing else.\<close>

definition all_digits :: "string \<Rightarrow> bool" where
  "all_digits s = (s \<noteq> [] \<and> list_all is_digit s)"

text \<open>\<open>s.replace(/^p/, '')\<close> for a literal prefix \<open>p\<close>.\<close>

definition strip_prefix :: "string \<Rightarrow> string \<Rightarrow> string" where
  "strip_prefix p s = (if take (length p) s = p then drop (length p) s else s)"

definition toUpperCase :: "char \<Rightarrow> char" where
  "toUpperCase c =
     (case map_of (zip ''abcdefghijklmnopqrstuvwxyz'' ''ABCDEFGHIJKLMNOPQRSTUVWXYZ'') c of
        None \<Rightarrow> c | Some u \<Rightarrow> u)"

text \<open>\<open>word.charAt(0).toUpperCase() + word.slice(1)\<close>.\<close>

fun capitalize :: "string \<Rightarrow> string" where
  "capitalize [] = []"
| "capitalize (c # cs) = toUpperCase c # cs"

text \<open>\<open>x || d\<close> where \<open>x\<close> is a string or \<open>undefined\<close>.\<close>

definition str_or :: "string option \<Rightarrow> string \<Rightarrow> string" where
  "str_or x d = (case x of None \<Rightarrow> d | Some s \<Rightarrow> if s = [] then d else s)"

section \<open>The label of a path (dom.utils.js)\<close>

text \<open>
  \<open>getProjectNameFromPath\<close>. The path is a string or absent (\<open>null\<close>, \<open>undefined\<close>):
  \<open>None\<close> stands for both. The last segment names the project; when the last segment is
  empty or a number, the segment before it is taken, once.
\<close>

definition getProjectNameFromPath :: "string option \<Rightarrow> string" where
  "getProjectNameFromPath path =
     (case path of
        None \<Rightarrow> ''Unknown Project''
      | Some p \<Rightarrow>
          if p = [] then ''Unknown Project''
          else
            let parts = split CHR ''/'' p;
                lastPart = str_or (at_index parts (int (length parts) - 1)) ''Unnamed Project'';
                projectName =
                  (if (lastPart = [] \<or> all_digits lastPart) \<and> 1 < length parts
                   then str_or (at_index parts (int (length parts) - 2)) ''Unnamed Project''
                   else lastPart);
                stripped = strip_prefix ''quest-'' (strip_prefix ''piscine-'' projectName)
            in join '' '' (map capitalize (split CHR ''-'' stripped)))"

section \<open>Objects used as dictionaries\<close>

text \<open>
  The aggregations collect their groups in an object literal \<open>{}\<close>. Its own properties
  are kept here as a list of key and value in the order of creation. Such an object also
  inherits the properties of \<open>Object.prototype\<close>: reading one of these names from a
  fresh object gives a function, or for \<open>__proto__\<close> the prototype object, not
  \<open>undefined\<close>.
\<close>

type_synonym 'v object = "(string \<times> 'v) list"

definition object_prototype_keys :: "string list" where
  "object_prototype_keys =
     [''constructor'', ''hasOwnProperty'', ''isPrototypeOf'', ''propertyIsEnumerable'',
      ''toLocaleString'', ''toString'', ''valueOf'', ''__defineGetter__'',
      ''__defineSetter__'', ''__lookupGetter__'', ''__lookupSetter__'', ''__proto__'']"

definition inherited :: "string \<Rightarrow> bool" where
  "inherited k = (k \<in> set object_prototype_keys)"

text \<open>The own property \<open>k\<close> of an object, if it has one.\<close>

fun obj_get :: "'v object \<Rightarrow> string \<Rightarrow> 'v option" where
  "obj_get [] k = None"
| "obj_get ((k', v) # ps) k = (if k' = k then Some v else obj_get ps k)"

text \<open>Writing the own property \<open>k\<close>: an existing property keeps its place, a new one
  is created last.\<close>

fun obj_set :: "'v object \<Rightarrow> string \<Rightarrow> 'v \<Rightarrow> 'v object" where
  "obj_set [] k v = [(k, v)]"
| "obj_set ((k', v') # ps) k v = (if k' = k then (k, v) # ps else (k', v') # obj_set ps k v)"

text \<open>
  \<open>obj[k] = v\<close> for a value \<open>v\<close> that is not an object. The name \<open>__proto__\<close> is
  an accessor of the prototype whose setter ignores such a value; every other name,
  inherited or not, becomes or stays an own property.
\<close>

definition obj_assign :: "'v object \<Rightarrow> string \<Rightarrow> 'v \<Rightarrow> 'v object" where
  "obj_assign obj k v = (if k = ''__proto__'' then obj else obj_set obj k v)"

text \<open>
  What \<open>obj[k]\<close> reads: the own property, else what the object inherits under that
  name (the prototype object for \<open>__proto__\<close>, a function for the other names), else
  \<open>undefined\<close>.
\<close>

datatype 'v lookup = Undefined | Own 'v | InheritedObject | InheritedFunction

definition obj_read :: "'v object \<Rightarrow> string \<Rightarrow> 'v lookup" where
  "obj_read obj k =
     (case obj_get obj k of
        Some v \<Rightarrow> Own v
      | None \<Rightarrow>
          if k = ''__proto__'' then InheritedObject
          else if inherited k then InheritedFunction
          else Undefined)"

text \<open>
  The values that the sums of the aggregations hold: a number, or a string. A string
  arises when \<open>+\<close> meets an inherited function or object: it is the text of that value
  followed by the decimal form of the number, and each further \<open>+\<close> appends to it. Such
  a string is never empty; its characters are not kept.
\<close>

datatype property_value = NumberValue real | StringValue

text \<open>\<open>(x || 0) + n\<close> for what was read as \<open>x\<close> and a number \<open>n\<close>.\<close>

fun or_zero_plus :: "property_value lookup \<Rightarrow> real \<Rightarrow> property_value" where
  "or_zero_plus Undefined n = NumberValue (0 + n)"
| "or_zero_plus (Own (NumberValue v)) n = NumberValue (num_or v 0 + n)"
| "or_zero_plus (Own StringValue) n = StringValue"
| "or_zero_plus InheritedObject n = StringValue"
| "or_zero_plus InheritedFunction n = StringValue"

text \<open>The entries of an object as a series of numbers; there is none when a value is a
  string.\<close>

fun numericSeries :: "(string \<times> property_value) list \<Rightarrow> (string \<times> real) list option" where
  "numericSeries [] = Some []"
| "numericSeries ((k, NumberValue v) # ps) = map_option (\<lambda>r. (k, v) # r) (numericSeries ps)"
| "numericSeries ((k, StringValue) # ps) = None"

text \<open>An object of numbers, as an object of values.\<close>

definition asValues :: "real object \<Rightarrow> property_value object" where
  "asValues obj = map (\<lambda>p. (fst p, NumberValue (snd p))) obj"

definition digit_value :: "string \<Rightarrow> int" where
  "digit_value s = foldl (\<lambda>n c. 10 * n + (of_char c - 48)) 0 s"

text \<open>An array index: the canonical decimal form of an integer below \<open>2^32 - 1\<close>.\<close>

definition is_array_index :: "string \<Rightarrow> bool" where
  "is_array_index s =
     (all_digits s \<and> (if take 1 s = ''0'' then s = ''0'' else True) \<and>
      digit_value s < 2 ^ 32 - 1)"

text \<open>\<open>Object.entries(obj)\<close>: the keys that are array indices first, in ascending
  numeric order, then the other keys in the order of creation.\<close>

definition Object_entries :: "'v object \<Rightarrow> (string \<times> 'v) list" where
  "Object_entries obj =
     sort_key (\<lambda>p. digit_value (fst p)) (filter (\<lambda>p. is_array_index (fst p)) obj) @
     filter (\<lambda>p. is_array_index (fst p) = False) obj"

section \<open>Sorting\<close>

text \<open>
  \<open>xs.sort(cmp)\<close>. ECMAScript requires the sort to be stable, and for a comparator that
  orders the elements consistently the result is the same in every implementation; it is
  computed here by insertion, an element going before the first one it does not exceed.
\<close>

fun insert_sorted :: "('a \<Rightarrow> 'a \<Rightarrow> real) \<Rightarrow> 'a \<Rightarrow> 'a list \<Rightarrow> 'a list" where
  "insert_sorted cmp x [] = [x]"
| "insert_sorted cmp x (y # ys) =
     (if cmp x y \<le> 0 then x # y # ys else y # insert_sorted cmp x ys)"

definition js_sort :: "('a \<Rightarrow> 'a \<Rightarrow> real) \<Rightarrow> 'a list \<Rightarrow> 'a list" where
  "js_sort cmp xs = foldr (insert_sorted cmp) xs []"

section \<open>XP per project (xp-chart.component.js)\<close>

record transaction =
  type :: jsval
  amount :: jsval
  path :: "string option"

text \<open>\<open>tx.amount\<close> as a number. The program reads it as one only after the test
  \<open>typeof tx.amount === 'number'\<close>; the value 0 for the other cases is never used.\<close>

definition amountOf :: "transaction \<Rightarrow> real" where
  "amountOf tx = (case amount tx of JNum a \<Rightarrow> a | _ \<Rightarrow> 0)"

text \<open>The filter of \<open>processData\<close>:
  \<open>(!tx.type || tx.type === 'xp') && typeof tx.amount === 'number' && tx.amount > 0\<close>.\<close>

definition xpFilter :: "transaction \<Rightarrow> bool" where
  "xpFilter tx =
     ((js_not (type tx) \<or> type tx = JStr ''xp'') \<and>
      typeof_number (amount tx) \<and> 0 < amountOf tx)"

text \<open>
  The body of the \<open>forEach\<close>: \<open>projectXP[name] = (projectXP[name] || 0) + tx.amount\<close>.
  Under the name \<open>__proto__\<close> nothing is stored; under another inherited name the sum
  is a string.
\<close>

definition addXP :: "property_value object \<Rightarrow> transaction \<Rightarrow> property_value object" where
  "addXP projectXP tx =
     (let projectName = getProjectNameFromPath (path tx) in
      obj_assign projectXP projectName
        (or_zero_plus (obj_read projectXP projectName) (amountOf tx)))"

definition XpChart_processData :: "transaction list \<Rightarrow> property_value object" where
  "XpChart_processData xpTransactions = foldl addXP [] (filter xpFilter xpTransactions)"

text \<open>\<open>Object.entries(projectXP)\<close>, the series that \<open>render\<close> lays out, when all its
  values are numbers. With a string among them the subtraction in the comparator of
  \<open>render\<close> gives \<open>NaN\<close>, and the order that \<open>sort\<close> then produces is left open by
  the language: \<open>None\<close>.\<close>

definition xpSeries :: "transaction list \<Rightarrow> (string \<times> real) list option" where
  "xpSeries xpTransactions = numericSeries (Object_entries (XpChart_processData xpTransactions))"

text \<open>\<open>projects.sort((a, b) => b[1] - a[1]); projects.slice(0, 10)\<close>.\<close>

definition topProjects :: "(string \<times> real) list \<Rightarrow> (string \<times> real) list" where
  "topProjects projects = take 10 (js_sort (\<lambda>a b. snd b - snd a) projects)"


text \<open>The validity filter in the words of the specification: the type is \<open>xp\<close> and the
  amount is a number above zero.\<close>

definition specValid :: "transaction \<Rightarrow> bool" where
  "specValid tx = (type tx = JStr ''xp'' \<and> typeof_number (amount tx) \<and> 0 < amountOf tx)"


section \<open>Best score per skill (skills-chart.component.js)\<close>

record skill =
  skillType :: string
  skillAmount :: real

text \<open>
  The body of the \<open>forEach\<close> of \<open>processData\<close>, which keeps the largest amount of
  each skill. A name that the object inherits reads as a function or an object: it is not
  false, and it compares false with every number, so nothing is stored.
\<close>

definition addSkill :: "real object \<Rightarrow> skill \<Rightarrow> real object" where
  "addSkill skillsMap sk =
     (let name = strip_prefix ''skill_'' (skillType sk) in
      if inherited name then skillsMap
      else if (case obj_get skillsMap name of
                 None \<Rightarrow> True
               | Some v \<Rightarrow> v = 0 \<or> v < skillAmount sk)
      then obj_set skillsMap name (skillAmount sk)
      else skillsMap)"

definition SkillsChart_processData :: "skill list \<Rightarrow> skill list" where
  "SkillsChart_processData skillsData =
     take 10 (js_sort (\<lambda>a b. skillAmount b - skillAmount a)
       (map (\<lambda>(t, a). \<lparr>skillType = ''skill_'' @ t, skillAmount = a\<rparr>)
          (Object_entries (foldl addSkill [] skillsData))))"

section \<open>Collaborators (api.service.js, app.js)\<close>

text \<open>The part of the response that \<open>fetchBestFriends\<close> reads: the groups of the user,
  each with its members, each member with a login. Every level may be absent.\<close>

record member_user =
  login :: "string option"

record member =
  user :: "member_user option"

record group_info =
  members :: "member list option"

record group_entry =
  group :: "group_info option"

record collaborator =
  collaboratorLogin :: string
  collaboratorCount :: real

text \<open>\<open>groupEntry.group?.members || []\<close> and \<open>member.user?.login\<close>.\<close>

definition membersOf :: "group_entry \<Rightarrow> member list" where
  "membersOf groupEntry =
     (case group groupEntry of
        None \<Rightarrow> []
      | Some g \<Rightarrow> (case members g of None \<Rightarrow> [] | Some ms \<Rightarrow> ms))"

definition loginOf :: "member \<Rightarrow> string option" where
  "loginOf m = (case user m of None \<Rightarrow> None | Some u \<Rightarrow> login u)"

text \<open>
  The body of the inner \<open>forEach\<close>:
  \<open>if (login) collaborators[login] = (collaborators[login] || 0) + 1\<close>.
\<close>

definition addMember :: "property_value object \<Rightarrow> member \<Rightarrow> property_value object" where
  "addMember collaborators m =
     (case loginOf m of
        None \<Rightarrow> collaborators
      | Some l \<Rightarrow>
          if l = [] then collaborators
          else obj_assign collaborators l (or_zero_plus (obj_read collaborators l) 1))"

definition addGroup :: "property_value object \<Rightarrow> group_entry \<Rightarrow> property_value object" where
  "addGroup collaborators groupEntry = foldl addMember collaborators (membersOf groupEntry)"

text \<open>
  \<open>fetchBestFriends\<close>, from the groups of the response on: the counts, as records of
  login and count, sorted by \<open>(a, b) => b.count - a.count\<close>. With a string among the
  counts the comparator gives \<open>NaN\<close> and the order of the result is left open by the
  language: \<open>None\<close>.
\<close>

definition fetchBestFriends :: "group_entry list \<Rightarrow> collaborator list option" where
  "fetchBestFriends groups =
     map_option
       (\<lambda>entries.
          js_sort (\<lambda>a b. collaboratorCount b - collaboratorCount a)
            (map (\<lambda>(l, n). \<lparr>collaboratorLogin = l, collaboratorCount = n\<rparr>) entries))
       (numericSeries (Object_entries (foldl addGroup [] groups)))"

text \<open>\<open>displayCollaborators\<close> (app.js): a message, or a card for each of the first
  eight collaborators, with the login, the count and the word after the count.\<close>

record collaborator_card =
  cardLogin :: string
  cardCount :: real
  cardUnit :: string

datatype collaborators_view =
    CollaboratorsMessage string
  | CollaboratorCards "collaborator_card list"

definition displayCollaborators :: "collaborator list \<Rightarrow> collaborators_view" where
  "displayCollaborators collaborators =
     (if collaborators = [] then CollaboratorsMessage ''No collaborators found''
      else CollaboratorCards
             (map (\<lambda>c. \<lparr>cardLogin = collaboratorLogin c, cardCount = collaboratorCount c,
                         cardUnit = (if collaboratorCount c = 1 then ''project'' else ''projects'')\<rparr>)
                  (take 8 collaborators)))"

definition cardsOf :: "collaborators_view \<Rightarrow> (string \<times> real) list" where
  "cardsOf view =
     (case view of
        CollaboratorsMessage m \<Rightarrow> []
      | CollaboratorCards cards \<Rightarrow> map (\<lambda>c. (cardLogin c, cardCount c)) cards)"

definition loginsOf :: "collaborator list option \<Rightarrow> string list" where
  "loginsOf r = (case r of None \<Rightarrow> [] | Some cs \<Rightarrow> map collaboratorLogin cs)"

text \<open>The logins of a group that count: present and not empty.\<close>

definition countedLogins :: "member list \<Rightarrow> string list" where
  "countedLogins ms =
     concat (map (\<lambda>m. case loginOf m of None \<Rightarrow> [] | Some l \<Rightarrow> if l = [] then [] else [l]) ms)"

definition groupLogins :: "group_entry \<Rightarrow> string list" where
  "groupLogins groupEntry = countedLogins (membersOf groupEntry)"

section \<open>The charts\<close>

text \<open>
  What \<open>render\<close> leaves in the SVG element, as a list of nodes. An element is known by
  its \<open>clientWidth\<close>, by the number that \<open>parseInt\<close> reads from its \<open>height\<close> attribute
  (\<open>None\<close> when that is \<open>NaN\<close>) and by its children.
\<close>

datatype svg_node =
    Message string
  | Label real real string
  | GridLine real real real real
  | Tick real real real
  | Title string
  | Rect real real real real string real
  | ValueText real real real
  | Defs string
  | Group real real "svg_node list"

text \<open>The bars among some nodes, in the order of the nodes, each with the label and the
  value of its tooltip.\<close>

fun barsOf :: "svg_node \<Rightarrow> (string \<times> real) list" where
  "barsOf (Rect x y w h label v) = [(label, v)]"
| "barsOf (Group tx ty nodes) = concat (map barsOf nodes)"
| "barsOf n = []"

definition drawnBars :: "svg_node list \<Rightarrow> (string \<times> real) list" where
  "drawnBars nodes = concat (map barsOf nodes)"

record svg_element =
  clientWidth :: real
  heightAttribute :: "real option"
  children :: "svg_node list"

record margins =
  marginTop :: real
  marginRight :: real
  marginBottom :: real
  marginLeft :: real

record dimensions =
  svgWidth :: real
  svgHeight :: real
  margin :: margins
  chartWidth :: real
  chartHeight :: real

text \<open>\<open>calculateDimensions\<close>; the two charts differ in the margins and in the height
  taken when the attribute gives none.\<close>

definition calculateDimensionsWith :: "margins \<Rightarrow> real \<Rightarrow> svg_element \<Rightarrow> dimensions option" where
  "calculateDimensionsWith m defaultHeight el =
     (let w = num_or (clientWidth el) 500;
          h = undef_or (heightAttribute el) defaultHeight;
          cw = w - marginLeft m - marginRight m;
          ch = h - marginTop m - marginBottom m
      in if cw \<le> 0 \<or> ch \<le> 0 then None
         else Some \<lparr>svgWidth = w, svgHeight = h, margin = m, chartWidth = cw, chartHeight = ch\<rparr>)"

definition XpChart_margin :: margins where
  "XpChart_margin = \<lparr>marginTop = 40, marginRight = 30, marginBottom = 120, marginLeft = 70\<rparr>"

definition SkillsChart_margin :: margins where
  "SkillsChart_margin = \<lparr>marginTop = 40, marginRight = 30, marginBottom = 100, marginLeft = 70\<rparr>"

definition XpChart_calculateDimensions :: "svg_element \<Rightarrow> dimensions option" where
  "XpChart_calculateDimensions el = calculateDimensionsWith XpChart_margin 380 el"

definition SkillsChart_calculateDimensions :: "svg_element \<Rightarrow> dimensions option" where
  "SkillsChart_calculateDimensions el = calculateDimensionsWith SkillsChart_margin 400 el"

definition renderEmptyState :: "svg_element \<Rightarrow> string \<Rightarrow> svg_element" where
  "renderEmptyState el message = el\<lparr>children := [Message message]\<rparr>"

text \<open>\<open>Math.max(...xs, 0)\<close> and \<open>Math.round\<close>.\<close>

definition Math_max0 :: "real list \<Rightarrow> real" where
  "Math_max0 xs = foldr max xs 0"

definition Math_round :: "real \<Rightarrow> real" where
  "Math_round x = of_int \<lfloor>x + 1 / 2\<rfloor>"

definition truncateLabel :: "nat \<Rightarrow> nat \<Rightarrow> string \<Rightarrow> string" where
  "truncateLabel limit keep s = (if limit < length s then take keep s @ ''...'' else s)"

text \<open>The Y axis of both charts: six grid lines with their ticks, then the title.\<close>

definition yTicks :: "real \<Rightarrow> real \<Rightarrow> real \<Rightarrow> real \<Rightarrow> svg_node list" where
  "yTicks tickX maxValue cw ch =
     concat (map (\<lambda>i. let val = Math_round ((maxValue / 5) * of_nat i);
                           yPos = ch - (val / num_or maxValue 1) * ch
                       in [GridLine 0 yPos cw yPos, Tick tickX (yPos + 4) val])
                 [0..<6])"

subsection \<open>The XP chart\<close>

text \<open>\<open>scaleY\<close> of the XP chart: the position of a value, zero at the bottom.\<close>

definition XpChart_scaleY :: "real \<Rightarrow> real \<Rightarrow> real \<Rightarrow> real" where
  "XpChart_scaleY ch maxXP val = ch - (val / num_or maxXP 1) * ch"

definition XpChart_renderXAxisLabels ::
    "(string \<times> real) list \<Rightarrow> real \<Rightarrow> real \<Rightarrow> dimensions \<Rightarrow> svg_node list" where
  "XpChart_renderXAxisLabels projects barWidth barPadding d =
     map (\<lambda>(i, project).
            Label (marginLeft (margin d) + of_nat i * (chartWidth d / of_nat (length projects)) +
                     (chartWidth d / of_nat (length projects) * barPadding / 2) + barWidth / 2)
                  (svgHeight d - marginBottom (margin d) + 25)
                  (truncateLabel 15 12 (fst project)))
         (enumerate 0 projects)"

definition XpChart_renderYAxis :: "real \<Rightarrow> dimensions \<Rightarrow> svg_node list" where
  "XpChart_renderYAxis maxValue d =
     [Group (marginLeft (margin d)) (marginTop (margin d))
        (yTicks (- 12) maxValue (chartWidth d) (chartHeight d)),
      Title ''XP Amount'']"

definition XpChart_renderBars ::
    "(string \<times> real) list \<Rightarrow> real \<Rightarrow> real \<Rightarrow> dimensions \<Rightarrow> real \<Rightarrow> svg_node list" where
  "XpChart_renderBars projects barWidth barPadding d maxXP =
     concat (map (\<lambda>(i, project).
        let x = marginLeft (margin d) + of_nat i * (chartWidth d / of_nat (length projects)) +
                  (chartWidth d / of_nat (length projects) * barPadding / 2);
            y = marginTop (margin d) + XpChart_scaleY (chartHeight d) maxXP (snd project);
            h = chartHeight d - XpChart_scaleY (chartHeight d) maxXP (snd project);
            w = barWidth
        in Rect x y (max 0 w) (max 0 h) (fst project) (snd project) #
           (if 15 < h then [ValueText (x + w / 2) (y - 7) (snd project)] else []))
       (enumerate 0 projects))"

text \<open>\<open>render\<close> from the series on: the entries of the totals that \<open>processData\<close>
  returned.\<close>

definition XpChart_layout :: "svg_element \<Rightarrow> (string \<times> real) list \<Rightarrow> svg_element" where
  "XpChart_layout el projects =
     (if projects = [] then renderEmptyState el ''No project XP data available''
      else
        let top = topProjects projects;
            cleared = el\<lparr>children := []\<rparr>
        in case XpChart_calculateDimensions cleared of
             None \<Rightarrow> renderEmptyState cleared ''Chart cannot be rendered (too small).''
           | Some d \<Rightarrow>
               let maxXP = Math_max0 (map snd top) in
               if maxXP = 0 \<and> 0 < length top
               then renderEmptyState cleared ''All projects have 0 XP''
               else
                 let barPadding = 3 / 10;
                     barWidth = chartWidth d / of_nat (length top) * (1 - barPadding)
                 in cleared\<lparr>children :=
                      XpChart_renderXAxisLabels top barWidth barPadding d @
                      XpChart_renderYAxis maxXP d @
                      XpChart_renderBars top barWidth barPadding d maxXP @
                      [Defs ''barGradient'']\<rparr>)"

text \<open>\<open>render\<close>: nothing happens without an element; \<open>None\<close> when a total is a
  string.\<close>

definition XpChart_render ::
    "svg_element option \<Rightarrow> transaction list \<Rightarrow> svg_element option option" where
  "XpChart_render svgElement xpTransactions =
     (case svgElement of
        None \<Rightarrow> Some None
      | Some el \<Rightarrow>
          map_option (\<lambda>projects. Some (XpChart_layout el projects)) (xpSeries xpTransactions))"

subsection \<open>The skills chart\<close>

text \<open>\<open>scaleY\<close> of the skills chart gives the height of a bar.\<close>

definition SkillsChart_scaleY :: "real \<Rightarrow> real \<Rightarrow> real \<Rightarrow> real" where
  "SkillsChart_scaleY ch maxAmount val = (val / num_or maxAmount 1) * ch"

definition replaceAll :: "char \<Rightarrow> char \<Rightarrow> string \<Rightarrow> string" where
  "replaceAll a b s = map (\<lambda>c. if c = a then b else c) s"

definition skillName :: "skill \<Rightarrow> string" where
  "skillName sk =
     truncateLabel 12 9
       (join '' '' (map capitalize (split CHR '' ''
          (replaceAll CHR ''-'' CHR '' ''
             (replaceAll CHR ''_'' CHR '' '' (strip_prefix ''skill_'' (skillType sk)))))))"

definition SkillsChart_renderBarsAndLabels ::
    "skill list \<Rightarrow> real \<Rightarrow> real \<Rightarrow> dimensions \<Rightarrow> real \<Rightarrow> svg_node list" where
  "SkillsChart_renderBarsAndLabels skills barWidth barPadding d maxAmount =
     concat (map (\<lambda>(i, sk).
        let x = of_nat i * (chartWidth d / of_nat (length skills)) +
                  (chartWidth d / of_nat (length skills) * barPadding / 2);
            barHeight = SkillsChart_scaleY (chartHeight d) maxAmount (skillAmount sk);
            y = chartHeight d - barHeight
        in [Label (x + barWidth / 2) (chartHeight d + 25) (skillName sk),
            Rect x y (max 0 barWidth) (max 0 barHeight) (skillName sk) (skillAmount sk)] @
           (if 15 < barHeight then [ValueText (x + barWidth / 2) (y - 5) (skillAmount sk)] else []))
       (enumerate 0 skills))"

definition SkillsChart_renderYAxis :: "real \<Rightarrow> dimensions \<Rightarrow> svg_node list" where
  "SkillsChart_renderYAxis maxValue d =
     [Group 0 0 (yTicks (- 10) maxValue (chartWidth d) (chartHeight d)),
      Title ''Skill Level (%)'']"

text \<open>\<open>render\<close> from the aggregated skills on.\<close>

definition SkillsChart_layout :: "svg_element \<Rightarrow> skill list \<Rightarrow> svg_element" where
  "SkillsChart_layout el aggregatedSkills =
     (if aggregatedSkills = [] then renderEmptyState el ''No skill data to display.''
      else
        let cleared = el\<lparr>children := []\<rparr> in
        case SkillsChart_calculateDimensions cleared of
          None \<Rightarrow> renderEmptyState cleared ''Chart cannot be rendered (too small).''
        | Some d \<Rightarrow>
            let maxAmount = Math_max0 (map skillAmount aggregatedSkills) in
            if maxAmount = 0 then renderEmptyState cleared ''All skills have 0% progress.''
            else
              let barPadding = 3 / 10;
                  barWidth = chartWidth d / of_nat (length aggregatedSkills) * (1 - barPadding)
              in cleared\<lparr>children :=
                   [Group (marginLeft (margin d)) (marginTop (margin d))
                      (SkillsChart_renderBarsAndLabels aggregatedSkills barWidth barPadding d
                         maxAmount @
                       SkillsChart_renderYAxis maxAmount d),
                    Defs ''skillBarGradient'']\<rparr>)"

definition SkillsChart_render :: "svg_element option \<Rightarrow> skill list \<Rightarrow> svg_element option" where
  "SkillsChart_render svgElement skillsData =
     (case svgElement of
        None \<Rightarrow> None
      | Some el \<Rightarrow>
          if skillsData = [] then Some (renderEmptyState el ''No skills data available.'')
          else Some (SkillsChart_layout el (SkillsChart_processData skillsData)))"

section \<open>The activity heatmap (app.js)\<close>

text \<open>
  \<open>displayActivity\<close> walks the days from six months ago to today. A \<open>Date\<close> is kept
  here as the number of its day, counted from 1 January 1970: the local time zone is taken
  to be UTC, and the two calls of \<open>new Date()\<close> that give \<open>today\<close> and the start of
  the walk are taken to return the same instant, so that the time of day plays no part.
\<close>

definition days_from_civil :: "int \<Rightarrow> int \<Rightarrow> int \<Rightarrow> int" where
  "days_from_civil y m d =
     (let y' = (if m \<le> 2 then y - 1 else y);
          era = y' div 400;
          yoe = y' - era * 400;
          doy = (153 * (if 2 < m then m - 3 else m + 9) + 2) div 5 + d - 1;
          doe = yoe * 365 + yoe div 4 - yoe div 100 + doy
      in era * 146097 + doe - 719468)"

definition civil_from_days :: "int \<Rightarrow> int \<times> int \<times> int" where
  "civil_from_days z =
     (let z' = z + 719468;
          era = z' div 146097;
          doe = z' - era * 146097;
          yoe = (doe - doe div 1460 + doe div 36524 - doe div 146096) div 365;
          doy = doe - (365 * yoe + yoe div 4 - yoe div 100);
          mp = (5 * doy + 2) div 153;
          d = doy - (153 * mp + 2) div 5 + 1;
          m = (if mp < 10 then mp + 3 else mp - 9)
      in ((if m \<le> 2 then yoe + era * 400 + 1 else yoe + era * 400), m, d))"

text \<open>\<open>date.setMonth(month)\<close> with a month counted from 0, which may be negative or above
  11: the year moves with it, and a day that the month does not have runs over into the
  next month.\<close>

definition setMonth :: "int \<Rightarrow> int \<Rightarrow> int" where
  "setMonth date month =
     (case civil_from_days date of
        (y, m, d) \<Rightarrow> days_from_civil (y + month div 12) (month mod 12 + 1) 1 + d - 1)"

definition getMonth :: "int \<Rightarrow> int" where
  "getMonth date = (case civil_from_days date of (y, m, d) \<Rightarrow> m - 1)"

fun decimal :: "nat \<Rightarrow> int \<Rightarrow> string" where
  "decimal 0 n = []"
| "decimal (Suc w) n = decimal w (n div 10) @ [''0123456789'' ! nat (n mod 10)]"

text \<open>\<open>date.toISOString().split('T')[0]\<close>: four digits for the years 0 to 9999, a sign
  and six digits for the others.\<close>

definition isoDate :: "int \<Rightarrow> string" where
  "isoDate date =
     (case civil_from_days date of
        (y, m, d) \<Rightarrow>
          (if 0 \<le> y \<and> y \<le> 9999 then decimal 4 y
           else (if y < 0 then ''-'' else ''+'') @ decimal 6 (abs y)) @
          ''-'' @ decimal 2 m @ ''-'' @ decimal 2 d)"

record activity_entry =
  activityDate :: string
  activityCount :: real

record day_cell =
  cellDate :: string
  cellCount :: real
  cellRed :: real
  cellGreen :: real
  cellBlue :: real
  cellAlpha :: real

datatype heatmap = HeatmapMessage string | HeatmapCells "day_cell list"

definition dayCell :: "real object \<Rightarrow> real \<Rightarrow> int \<Rightarrow> day_cell" where
  "dayCell activityMap maxCount currentDate =
     (let dateStr = isoDate currentDate;
          count = undef_or (obj_get activityMap dateStr) 0;
          intensity = (if 0 < maxCount then count / maxCount else 0)
      in \<lparr>cellDate = dateStr, cellCount = count,
          cellRed = Math_round (138 + intensity * (236 - 138)),
          cellGreen = Math_round (58 + intensity * (72 - 58)),
          cellBlue = Math_round (180 + intensity * (153 - 180)),
          cellAlpha = 1 / 10 + intensity * (9 / 10)\<rparr>)"

text \<open>The \<open>while (currentDate <= today)\<close> loop, one cell a day.\<close>

function dayCells :: "real object \<Rightarrow> real \<Rightarrow> int \<Rightarrow> int \<Rightarrow> day_cell list" where
  "dayCells activityMap maxCount currentDate today =
     (if currentDate \<le> today
      then dayCell activityMap maxCount currentDate #
           dayCells activityMap maxCount (currentDate + 1) today
      else [])"
  by pat_completeness auto
termination
  by (relation "measure (\<lambda>(activityMap, maxCount, currentDate, today). nat (today + 1 - currentDate))")
     auto

declare dayCells.simps [simp del]

text \<open>\<open>displayActivity\<close>: what it puts in the container. The dates looked up in
  \<open>activityMap\<close> are ISO dates, never a name that an object inherits, so only own
  properties are read.\<close>

definition displayActivity :: "activity_entry list \<Rightarrow> int \<Rightarrow> heatmap" where
  "displayActivity activity today =
     (case activity of
        [] \<Rightarrow> HeatmapMessage ''No activity data available''
      | a # rest \<Rightarrow>
          let maxCount = foldl max (activityCount a) (map activityCount rest);
              sixMonthsAgo = setMonth today (getMonth today - 6);
              activityMap =
                foldl (\<lambda>m e. obj_assign m (activityDate e) (activityCount e)) [] activity
          in HeatmapCells (dayCells activityMap maxCount sixMonthsAgo today))"

definition bucketsOf :: "heatmap \<Rightarrow> day_cell list" where
  "bucketsOf h = (case h of HeatmapMessage m \<Rightarrow> [] | HeatmapCells cells \<Rightarrow> cells)"

section \<open>Helper facts\<close>

subsection \<open>Dictionaries\<close>

lemma undef_or_zero: "undef_or (Some v) 0 = v" "undef_or None 0 = 0"
  by (simp_all add: undef_or_def num_or_def)

lemma num_or_zero: "num_or v 0 = v"
  by (simp add: num_or_def)

lemma inherited_proto: "inherited ''__proto__''"
  by (simp add: inherited_def object_prototype_keys_def)

lemma obj_get_obj_set: "obj_get (obj_set obj k v) k' = (if k' = k then Some v else obj_get obj k')"
  by (induction obj) auto

lemma keys_obj_set: "fst ` set (obj_set obj k v) = insert k (fst ` set obj)"
proof (induction obj)
  case Nil
  then show ?case by simp
next
  case (Cons p obj)
  then show ?case by (cases p) auto
qed

lemma distinct_obj_set: "distinct (map fst obj) \<Longrightarrow> distinct (map fst (obj_set obj k v))"
proof (induction obj)
  case Nil
  then show ?case by simp
next
  case (Cons p obj)
  obtain k' v' where p: "p = (k', v')" by (cases p)
  show ?case
  proof (cases "k' = k")
    case True
    with Cons.prems p show ?thesis by simp
  next
    case False
    have "k' \<notin> fst ` set (obj_set obj k v)"
      using Cons.prems p False by (simp add: keys_obj_set)
    with Cons p False show ?thesis by simp
  qed
qed

lemma obj_get_distinct:
  "distinct (map fst obj) \<Longrightarrow> ((k, v) \<in> set obj) = (obj_get obj k = Some v)"
  by (induction obj) (auto simp: rev_image_eqI split: if_splits)

lemma obj_get_keys: "(k \<in> fst ` set obj) = (obj_get obj k \<noteq> None)"
  by (induction obj) auto

lemma total_obj_set:
  "sum_list (map snd (obj_set obj k (undef_or (obj_get obj k) 0 + a))) = sum_list (map snd obj) + a"
  by (induction obj) (auto simp: undef_or_zero)

lemma mset_Object_entries: "mset (Object_entries obj) = mset obj"
  by (simp add: Object_entries_def)

lemma sum_Object_entries:
  fixes obj :: "real object"
  shows "sum_list (map snd (Object_entries obj)) = sum_list (map snd obj)"
proof -
  have "sum_mset (image_mset snd (mset (Object_entries obj))) = sum_mset (image_mset snd (mset obj))"
    by (simp only: mset_Object_entries)
  then show ?thesis
    by (metis mset_map sum_mset_sum_list)
qed

subsection \<open>Objects whose values are numbers\<close>

lemma obj_get_asValues: "obj_get (asValues obj) k = map_option NumberValue (obj_get obj k)"
  by (induction obj) (auto simp: asValues_def)

lemma obj_set_asValues: "obj_set (asValues obj) k (NumberValue v) = asValues (obj_set obj k v)"
  by (induction obj) (auto simp: asValues_def)

lemma numericSeries_asValues: "numericSeries (asValues obj) = Some obj"
  by (induction obj) (auto simp: asValues_def)

lemma insort_key_asValues:
  "insort_key (\<lambda>p. g (fst p)) (fst p, NumberValue (snd p)) (asValues obj) =
     asValues (insort_key (\<lambda>p. g (fst p)) p obj)"
  by (induction obj) (auto simp: asValues_def)

lemma sort_key_asValues:
  "sort_key (\<lambda>p. g (fst p)) (asValues obj) = asValues (sort_key (\<lambda>p. g (fst p)) obj)"
proof (induction obj)
  case Nil
  then show ?case by (simp add: asValues_def)
next
  case (Cons p obj)
  have "asValues (p # obj) = (fst p, NumberValue (snd p)) # asValues obj"
    by (simp add: asValues_def)
  with Cons show ?case
    by (simp add: insort_key_asValues)
qed

lemma filter_asValues:
  "filter (\<lambda>p. P (fst p)) (asValues obj) = asValues (filter (\<lambda>p. P (fst p)) obj)"
  by (induction obj) (auto simp: asValues_def)

lemma Object_entries_asValues: "Object_entries (asValues obj) = asValues (Object_entries obj)"
proof -
  have a: "asValues (xs @ ys) = asValues xs @ asValues ys" for xs ys
    by (simp add: asValues_def)
  have f1: "filter (\<lambda>p. is_array_index (fst p)) (asValues obj) =
              asValues (filter (\<lambda>p. is_array_index (fst p)) obj)"
    by (rule filter_asValues)
  have f2: "filter (\<lambda>p. is_array_index (fst p) = False) (asValues obj) =
              asValues (filter (\<lambda>p. is_array_index (fst p) = False) obj)"
    by (rule filter_asValues[of "\<lambda>k. is_array_index k = False"])
  have s: "sort_key (\<lambda>p. digit_value (fst p)) (asValues ys) =
             asValues (sort_key (\<lambda>p. digit_value (fst p)) ys)" for ys
    by (rule sort_key_asValues)
  show ?thesis
    unfolding Object_entries_def f1 f2 s a ..
qed

lemma add_asValues:
  assumes "\<not> inherited k"
  shows "obj_assign (asValues obj) k (or_zero_plus (obj_read (asValues obj) k) a) =
           asValues (obj_set obj k (undef_or (obj_get obj k) 0 + a))"
proof -
  have k: "k \<noteq> ''__proto__''" using assms inherited_proto by auto
  show ?thesis
  proof (cases "obj_get obj k")
    case None
    then show ?thesis
      using assms k
      by (simp add: obj_assign_def obj_read_def obj_get_asValues obj_set_asValues undef_or_zero)
  next
    case (Some v)
    then show ?thesis
      using k
      by (simp add: obj_assign_def obj_read_def obj_get_asValues obj_set_asValues undef_or_zero
          num_or_zero)
  qed
qed

subsection \<open>Sorting\<close>

lemma insert_sorted_insort:
  "insert_sorted (\<lambda>a b. val b - val a) x ys = insort_key (\<lambda>a. - val a) x ys"
  by (induction ys) auto

lemma js_sort_sort_key: "js_sort (\<lambda>a b. val b - val a) xs = sort_key (\<lambda>a. - val a) xs"
  by (induction xs) (simp_all add: js_sort_def insert_sorted_insort sort_key_def)

lemma mset_js_sort: "mset (js_sort (\<lambda>a b. val b - val a) xs) = mset xs"
  by (simp add: js_sort_sort_key)

lemma set_js_sort: "set (js_sort (\<lambda>a b. val b - val a) xs) = set xs"
  by (simp add: js_sort_sort_key)

lemma length_js_sort: "length (js_sort (\<lambda>a b. val b - val a) xs) = length xs"
  by (simp add: js_sort_sort_key)

lemma sorted_js_sort: "sorted_wrt (\<lambda>a b. val b \<le> val a) (js_sort (\<lambda>a b. val b - val a) xs)"
proof -
  have "sorted (map (\<lambda>a. - val a) (js_sort (\<lambda>a b. val b - val a) xs))"
    by (simp add: js_sort_sort_key)
  then show ?thesis by (simp add: sorted_map)
qed

lemma stable_js_sort:
  "filter (\<lambda>x. val x = v) (js_sort (\<lambda>a b. val b - val a) xs) = filter (\<lambda>x. val x = v) xs"
proof -
  have "filter (\<lambda>x. - val x = - v) (sort_key (\<lambda>a. - val a) xs) = filter (\<lambda>x. - val x = - v) xs"
    by (rule sort_key_stable)
  then show ?thesis by (simp add: js_sort_sort_key)
qed

lemma topProjects_set: "p \<in> set (topProjects ps) \<Longrightarrow> p \<in> set ps"
proof -
  assume "p \<in> set (topProjects ps)"
  then have "p \<in> set (js_sort (\<lambda>a b. snd b - snd a) ps)"
    by (auto simp: topProjects_def dest: in_set_takeD)
  then show ?thesis by (simp add: set_js_sort)
qed

lemma topProjects_nonempty: "ps \<noteq> [] \<Longrightarrow> topProjects ps \<noteq> []"
proof -
  assume "ps \<noteq> []"
  then have "0 < length (js_sort (\<lambda>a b. snd b - snd a) ps)" by (simp add: length_js_sort)
  then show ?thesis by (auto simp: topProjects_def)
qed

lemma sorted_desc_hd:
  fixes val :: "'a \<Rightarrow> real"
  shows "sorted_wrt (\<lambda>a b. val b \<le> val a) xs \<Longrightarrow> x \<in> set xs \<Longrightarrow> val x \<le> val (hd xs)"
  by (cases xs) auto

subsection \<open>The XP totals\<close>

lemma foldl_addXP_asValues:
  "\<forall>tx\<in>set txs. \<not> inherited (getProjectNameFromPath (path tx)) \<Longrightarrow>
   foldl addXP (asValues obj) txs =
     asValues (foldl (\<lambda>ob tx. obj_set ob (getProjectNameFromPath (path tx))
                 (undef_or (obj_get ob (getProjectNameFromPath (path tx))) 0 + amountOf tx)) obj txs)"
  by (induction txs arbitrary: obj) (simp_all add: addXP_def Let_def add_asValues)

lemma foldl_total:
  "sum_list (map snd (foldl (\<lambda>ob tx. obj_set ob (n tx) (undef_or (obj_get ob (n tx)) 0 + a tx)) obj txs)) =
     sum_list (map snd obj) + sum_list (map a txs)"
  by (induction txs arbitrary: obj) (simp_all add: total_obj_set)

lemma processData_total:
  assumes "\<forall>tx\<in>set txs. xpFilter tx \<longrightarrow> \<not> inherited (getProjectNameFromPath (path tx))"
  shows "\<exists>projectXP. XpChart_processData txs = asValues projectXP \<and>
           sum_list (map snd projectXP) = sum_list (map amountOf (filter xpFilter txs))"
proof -
  let ?numbers = "foldl (\<lambda>ob tx. obj_set ob (getProjectNameFromPath (path tx))
                    (undef_or (obj_get ob (getProjectNameFromPath (path tx))) 0 + amountOf tx))
                    [] (filter xpFilter txs)"
  have h: "\<forall>tx\<in>set (filter xpFilter txs). \<not> inherited (getProjectNameFromPath (path tx))"
    using assms by simp
  have "foldl addXP (asValues []) (filter xpFilter txs) = asValues ?numbers"
    by (rule foldl_addXP_asValues[OF h])
  then have 1: "XpChart_processData txs = asValues ?numbers"
    by (simp add: XpChart_processData_def asValues_def)
  have 2: "sum_list (map snd ?numbers) = sum_list (map amountOf (filter xpFilter txs))"
    by (subst foldl_total) simp
  from 1 2 show ?thesis by blast
qed











subsection \<open>The collaborator counts\<close>

lemma foldl_addMember_asValues:
  "\<forall>l\<in>set (countedLogins ms). \<not> inherited l \<Longrightarrow>
   foldl addMember (asValues c) ms =
     asValues (foldl (\<lambda>c l. obj_set c l (undef_or (obj_get c l) 0 + 1)) c (countedLogins ms))"
proof (induction ms arbitrary: c)
  case Nil
  then show ?case by (simp add: countedLogins_def)
next
  case (Cons m ms)
  have tl: "\<forall>l\<in>set (countedLogins ms). \<not> inherited l"
    using Cons.prems by (simp add: countedLogins_def)
  show ?case
  proof (cases "\<exists>l. loginOf m = Some l \<and> l \<noteq> []")
    case False
    then have step: "addMember (asValues c) m = asValues c"
      by (cases "loginOf m") (auto simp: addMember_def)
    have cl: "countedLogins (m # ms) = countedLogins ms"
      using False by (cases "loginOf m") (auto simp: countedLogins_def)
    show ?thesis
      by (simp only: foldl_Cons step cl Cons.IH[OF tl])
  next
    case True
    then obtain l where l: "loginOf m = Some l" "l \<noteq> []" by blast
    have cl: "countedLogins (m # ms) = l # countedLogins ms"
      using l by (simp add: countedLogins_def)
    have ni: "\<not> inherited l" using Cons.prems cl by simp
    have step: "addMember (asValues c) m = asValues (obj_set c l (undef_or (obj_get c l) 0 + 1))"
      using l by (simp add: addMember_def add_asValues[OF ni])
    show ?thesis
      by (simp only: foldl_Cons step cl Cons.IH[OF tl])
  qed
qed

lemma foldl_count:
  "distinct (map fst c) \<Longrightarrow>
   distinct (map fst (foldl (\<lambda>c l. obj_set c l (undef_or (obj_get c l) 0 + 1)) c ls)) \<and>
   (\<forall>k. obj_get (foldl (\<lambda>c l. obj_set c l (undef_or (obj_get c l) 0 + 1)) c ls) k =
      (if count_list ls k = 0 then obj_get c k
       else Some (undef_or (obj_get c k) 0 + real (count_list ls k))))"
proof (induction ls arbitrary: c)
  case Nil
  then show ?case by simp
next
  case (Cons l ls)
  let ?c1 = "obj_set c l (undef_or (obj_get c l) 0 + 1)"
  have d1: "distinct (map fst ?c1)" using Cons.prems by (rule distinct_obj_set)
  from Cons.IH[OF d1] show ?case
    by (auto simp: obj_get_obj_set undef_or_zero)
qed

lemma foldl_addGroup_flat:
  "foldl addGroup acc groups = foldl addMember acc (concat (map membersOf groups))"
  by (induction groups arbitrary: acc) (simp_all add: addGroup_def)

lemma countedLogins_concat:
  "countedLogins (concat (map membersOf groups)) = concat (map groupLogins groups)"
  by (induction groups) (simp_all add: groupLogins_def countedLogins_def)

lemma count_list_concat:
  "real (count_list (concat (map f gs)) k) = sum_list (map (\<lambda>g. real (count_list (f g) k)) gs)"
  by (induction gs) simp_all

subsection \<open>The charts\<close>

lemma dims_children:
  "calculateDimensionsWith m dh (el\<lparr>children := c\<rparr>) = calculateDimensionsWith m dh el"
  by (simp add: calculateDimensionsWith_def)

lemma Math_max0_zero: "\<forall>x\<in>set xs. x = 0 \<Longrightarrow> Math_max0 xs = 0"
  by (induction xs) (simp_all add: Math_max0_def)

lemma Math_max0_ge: "x \<in> set xs \<Longrightarrow> x \<le> Math_max0 xs"
  by (induction xs) (auto simp: Math_max0_def)

lemma Math_max0_top:
  assumes "p \<in> set ps" "0 < snd p"
  shows "0 < Math_max0 (map snd (topProjects ps))"
proof -
  let ?s = "js_sort (\<lambda>a b. snd b - snd a) ps"
  have ne: "?s \<noteq> []" using assms(1) set_js_sort[of snd ps] by auto
  have "p \<in> set ?s" using assms(1) by (simp add: set_js_sort)
  then have le: "snd p \<le> snd (hd ?s)"
    by (rule sorted_desc_hd[OF sorted_js_sort])
  have "hd ?s \<in> set (take 10 ?s)" using ne by (cases ?s) auto
  then have "snd (hd ?s) \<le> Math_max0 (map snd (topProjects ps))"
    by (intro Math_max0_ge) (auto simp: topProjects_def)
  with le assms(2) show ?thesis by linarith
qed

lemma drawnBars_append: "drawnBars (xs @ ys) = drawnBars xs @ drawnBars ys"
  by (simp add: drawnBars_def)

lemma drawnBars_yTicks: "concat (map barsOf (yTicks x mx cw ch)) = []"
  by (simp add: yTicks_def Let_def)

lemma drawnBars_enumerate:
  assumes "\<And>i p. concat (map barsOf (g (i, p))) = [f p]"
  shows "drawnBars (concat (map g (enumerate k ps))) = map f ps"
  by (induction ps arbitrary: k) (simp_all add: drawnBars_def assms)

lemma drawnBars_XpChart:
  "drawnBars (XpChart_renderXAxisLabels ps bw bp d) = []"
  "drawnBars (XpChart_renderYAxis mx d) = []"
  "drawnBars (XpChart_renderBars ps bw bp d mx) = ps"
proof -
  show "drawnBars (XpChart_renderXAxisLabels ps bw bp d) = []"
    by (simp add: drawnBars_def XpChart_renderXAxisLabels_def case_prod_beta)
  show "drawnBars (XpChart_renderYAxis mx d) = []"
    by (simp add: drawnBars_def XpChart_renderYAxis_def drawnBars_yTicks)
  have "drawnBars (XpChart_renderBars ps bw bp d mx) = map (\<lambda>p. p) ps"
    unfolding XpChart_renderBars_def
    by (rule drawnBars_enumerate) (simp add: Let_def)
  then show "drawnBars (XpChart_renderBars ps bw bp d mx) = ps" by simp
qed

lemma drawnBars_SkillsChart:
  "drawnBars (SkillsChart_renderBarsAndLabels skills bw bp d mx) =
     map (\<lambda>s. (skillName s, skillAmount s)) skills"
  "drawnBars (SkillsChart_renderYAxis mx d) = []"
proof -
  show "drawnBars (SkillsChart_renderBarsAndLabels skills bw bp d mx) =
          map (\<lambda>s. (skillName s, skillAmount s)) skills"
    unfolding SkillsChart_renderBarsAndLabels_def
    by (rule drawnBars_enumerate) (simp add: Let_def)
  show "drawnBars (SkillsChart_renderYAxis mx d) = []"
    by (simp add: drawnBars_def SkillsChart_renderYAxis_def drawnBars_yTicks)
qed

lemma dayCells_dates:
  "map cellDate (dayCells m mx currentDate today) = map isoDate [currentDate..today]"
proof (induction m mx currentDate today rule: dayCells.induct)
  case (1 m mx currentDate today)
  then show ?case
    by (subst dayCells.simps, subst upto.simps) (simp add: dayCell_def Let_def)
qed

lemma dayCells_length:
  "length (dayCells m mx currentDate today) = nat (today + 1 - currentDate)"
proof (induction m mx currentDate today rule: dayCells.induct)
  case (1 m mx currentDate today)
  then show ?case
    by (subst dayCells.simps) (auto simp: nat_add_distrib)
qed

section \<open>The sum of the XP totals\<close>

text \<open>
  Claim C1, as stated, at one record that has no type: it is not a valid record in the
  words of the specification, yet its amount is in the series.
\<close>

theorem xp_sum_counts_typeless_record:
  "xpSeries [\<lparr>type = JUndefined, amount = JNum 5, path = Some ''div-01/ascii-art''\<rparr>] =
     Some [(''Ascii Art'', 5)] \<and>
   sum_list (map snd [(''Ascii Art'', 5::real)]) \<noteq>
     sum_list (map amountOf
       (filter specValid
          [\<lparr>type = JUndefined, amount = JNum 5, path = Some ''div-01/ascii-art''\<rparr>]))"
  by code_simp

text \<open>
  Claim C1, amended. Let no record that passes the filter of \<open>processData\<close> have a
  project name that the object inherits. Then the totals of \<open>processData\<close> are numbers,
  and the values of the series add up to the amounts of exactly the records that pass that filter:
  the type is \<open>xp\<close> or is false (absent, \<open>null\<close>, empty), and the amount is a number
  above zero. The other records add nothing.
\<close>

theorem xp_sum_preserved:
  assumes "\<forall>tx\<in>set txs. xpFilter tx \<longrightarrow> \<not> inherited (getProjectNameFromPath (path tx))"
  shows "\<exists>projects. xpSeries txs = Some projects \<and>
           sum_list (map snd projects) = sum_list (map amountOf (filter xpFilter txs))"
proof -
  from processData_total[OF assms] obtain projectXP where
    "XpChart_processData txs = asValues projectXP"
    "sum_list (map snd projectXP) = sum_list (map amountOf (filter xpFilter txs))"
    by blast
  then show ?thesis
    by (simp add: xpSeries_def Object_entries_asValues numericSeries_asValues sum_Object_entries)
qed

text \<open>
  Claim C1, amended, on four records: two of one project with the type \<open>xp\<close>, one
  without a type, and one of the type \<open>up\<close>, which is left out.
\<close>

theorem xp_sum_preserved_witness:
  "\<exists>projects.
     xpSeries [\<lparr>type = JStr ''xp'', amount = JNum 100, path = Some ''/div-01/go-reloaded''\<rparr>,
               \<lparr>type = JNull, amount = JNum 5, path = Some ''/div-01/ascii-art/''\<rparr>,
               \<lparr>type = JStr ''up'', amount = JNum 7, path = Some ''/div-01/go-reloaded''\<rparr>,
               \<lparr>type = JStr ''xp'', amount = JNum 20, path = Some ''/div-01/go-reloaded''\<rparr>] =
       Some projects \<and>
     sum_list (map snd projects) = 125"
proof -
  let ?txs = "[\<lparr>type = JStr ''xp'', amount = JNum 100, path = Some ''/div-01/go-reloaded''\<rparr>,
               \<lparr>type = JNull, amount = JNum 5, path = Some ''/div-01/ascii-art/''\<rparr>,
               \<lparr>type = JStr ''up'', amount = JNum 7, path = Some ''/div-01/go-reloaded''\<rparr>,
               \<lparr>type = JStr ''xp'', amount = JNum 20, path = Some ''/div-01/go-reloaded''\<rparr>]"
  have h: "\<forall>tx\<in>set ?txs. xpFilter tx \<longrightarrow> \<not> inherited (getProjectNameFromPath (path tx))"
    by code_simp
  have s: "sum_list (map amountOf (filter xpFilter ?txs)) = 125"
    by code_simp
  from xp_sum_preserved[OF h] s show ?thesis by simp
qed

section \<open>Labels\<close>

text \<open>
  Claim C2, as stated, fails: the label of \<open>piscine-go/quest-01/42\<close> is not \<open>Go\<close>.
\<close>

theorem label_of_numeric_tail_not_Go:
  "getProjectNameFromPath (Some ''piscine-go/quest-01/42'') \<noteq> ''Go''"
  by code_simp

text \<open>
  Claim C2, amended. For the path \<open>piscine-go/quest-01/42\<close> the numeric last segment
  \<open>42\<close> is passed over in favour of the segment before it, \<open>quest-01\<close>; the prefix
  \<open>quest-\<close> is removed and the label is \<open>01\<close>. The first segment is never looked at.
\<close>

theorem label_of_numeric_tail:
  "getProjectNameFromPath (Some ''piscine-go/quest-01/42'') = ''01''"
  by code_simp

text \<open>
  Claim C8 at the path \<open>piscine-\<close>: the only segment is the prefix itself, removing the
  prefix leaves nothing, and the label is the empty string.
\<close>

theorem label_of_bare_prefix_is_empty:
  "getProjectNameFromPath (Some ''piscine-'') = ''''"
  by code_simp

section \<open>The top of a series\<close>

text \<open>
  Claim C3, as stated, for the series \<open>A: 100\<close>, \<open>B: 50\<close>, \<open>C: 50\<close> in an element
  500 wide: the chart has no parameter for the number of bars, it keeps up to ten, and it
  draws three bars here, not two.
\<close>

theorem three_bars_for_three_entries:
  "drawnBars (children (XpChart_layout
      \<lparr>clientWidth = 500, heightAttribute = None, children = []\<rparr>
      [(''A'', 100), (''B'', 50), (''C'', 50)])) =
     [(''A'', 100), (''B'', 50), (''C'', 50)] \<and>
   length (drawnBars (children (XpChart_layout
      \<lparr>clientWidth = 500, heightAttribute = None, children = []\<rparr>
      [(''A'', 100), (''B'', 50), (''C'', 50)]))) \<noteq> 2"
  by code_simp

text \<open>
  Claim C3, amended. The number of entries kept is a constant of each chart, not a
  parameter. When the dimensions are found and some value is above zero, the bars of the
  XP chart are, in this order, the first ten entries of the series sorted by value, largest
  first; the bars of the skills chart are the first ten of the best scores sorted in the
  same way; the collaborators come sorted by count and the first eight get a card. The
  sorted series has the entries of the series, no smaller value before a larger one, and
  entries of equal value in the order they had before.
\<close>

theorem top_n_drawn:
  "(XpChart_calculateDimensions el = Some d \<and> (\<exists>p\<in>set projects. 0 < snd p) \<longrightarrow>
      drawnBars (children (XpChart_layout el projects)) =
        take 10 (js_sort (\<lambda>a b. snd b - snd a) projects)) \<and>
   (SkillsChart_calculateDimensions el' = Some d' \<and> skillsData \<noteq> [] \<and>
    (\<exists>s\<in>set (SkillsChart_processData skillsData). 0 < skillAmount s) \<longrightarrow>
      map_option (\<lambda>e. drawnBars (children e)) (SkillsChart_render (Some el') skillsData) =
        Some (map (\<lambda>s. (skillName s, skillAmount s))
          (take 10 (js_sort (\<lambda>a b. skillAmount b - skillAmount a)
             (map (\<lambda>(t, a). \<lparr>skillType = ''skill_'' @ t, skillAmount = a\<rparr>)
                (Object_entries (foldl addSkill [] skillsData))))))) \<and>
   fetchBestFriends groups =
     map_option
       (\<lambda>entries. js_sort (\<lambda>a b. collaboratorCount b - collaboratorCount a)
          (map (\<lambda>(l, n). \<lparr>collaboratorLogin = l, collaboratorCount = n\<rparr>) entries))
       (numericSeries (Object_entries (foldl addGroup [] groups))) \<and>
   cardsOf (displayCollaborators collaborators) =
     map (\<lambda>c. (collaboratorLogin c, collaboratorCount c)) (take 8 collaborators) \<and>
   mset (js_sort (\<lambda>a b. val b - val a) xs) = mset xs \<and>
   sorted_wrt (\<lambda>a b. val b \<le> val a) (js_sort (\<lambda>a b. val b - val a) xs) \<and>
   (\<forall>v. filter (\<lambda>x. val x = v) (js_sort (\<lambda>a b. val b - val a) xs) = filter (\<lambda>x. val x = v) xs)"
proof -
  have xp: "drawnBars (children (XpChart_layout el projects)) =
              take 10 (js_sort (\<lambda>a b. snd b - snd a) projects)"
    if "XpChart_calculateDimensions el = Some d \<and> (\<exists>p\<in>set projects. 0 < snd p)"
  proof -
    from that have d: "XpChart_calculateDimensions el = Some d"
      and "\<exists>p\<in>set projects. 0 < snd p" by blast+
    then obtain p where p: "p \<in> set projects" "0 < snd p" by blast
    then have ne: "projects \<noteq> []" by auto
    have m: "Math_max0 (map snd (topProjects projects)) \<noteq> 0"
      using Math_max0_top[OF p] by simp
    have d': "XpChart_calculateDimensions (el\<lparr>children := []\<rparr>) = Some d"
      using d by (simp add: XpChart_calculateDimensions_def dims_children)
    show ?thesis
      using ne m d'
      by (simp add: XpChart_layout_def Let_def drawnBars_append drawnBars_XpChart)
         (simp add: drawnBars_def topProjects_def)
  qed
  have sk: "map_option (\<lambda>e. drawnBars (children e)) (SkillsChart_render (Some el') skillsData) =
              Some (map (\<lambda>s. (skillName s, skillAmount s)) (SkillsChart_processData skillsData))"
    if "SkillsChart_calculateDimensions el' = Some d' \<and> skillsData \<noteq> [] \<and>
        (\<exists>s\<in>set (SkillsChart_processData skillsData). 0 < skillAmount s)"
  proof -
    from that have d: "SkillsChart_calculateDimensions el' = Some d'" and n: "skillsData \<noteq> []"
      and s: "\<exists>s\<in>set (SkillsChart_processData skillsData). 0 < skillAmount s"
      by blast+
    let ?agg = "SkillsChart_processData skillsData"
    from s obtain s where s: "s \<in> set ?agg" "0 < skillAmount s" by blast
    then have ne: "?agg \<noteq> []" by auto
    have "skillAmount s \<le> Math_max0 (map skillAmount ?agg)"
      using s(1) by (intro Math_max0_ge) simp
    then have m: "Math_max0 (map skillAmount ?agg) \<noteq> 0" using s(2) by linarith
    have d'': "SkillsChart_calculateDimensions (el'\<lparr>children := []\<rparr>) = Some d'"
      using d by (simp add: SkillsChart_calculateDimensions_def dims_children)
    have g: "drawnBars [Group x y nodes, Defs i] = drawnBars nodes" for x y nodes i
      by (simp add: drawnBars_def)
    show ?thesis
      using n ne m d''
      by (simp add: SkillsChart_render_def SkillsChart_layout_def Let_def g drawnBars_append
          drawnBars_SkillsChart)
  qed
  have cards: "cardsOf (displayCollaborators collaborators) =
                 map (\<lambda>c. (collaboratorLogin c, collaboratorCount c)) (take 8 collaborators)"
    by (simp add: cardsOf_def displayCollaborators_def o_def take_map)
  have fr: "fetchBestFriends groups =
     map_option
       (\<lambda>entries. js_sort (\<lambda>a b. collaboratorCount b - collaboratorCount a)
          (map (\<lambda>(l, n). \<lparr>collaboratorLogin = l, collaboratorCount = n\<rparr>) entries))
       (numericSeries (Object_entries (foldl addGroup [] groups)))"
    by (rule fetchBestFriends_def)
  have st: "\<forall>v. filter (\<lambda>x. val x = v) (js_sort (\<lambda>a b. val b - val a) xs) =
              filter (\<lambda>x. val x = v) xs"
    by (simp add: stable_js_sort)
  have c1: "XpChart_calculateDimensions el = Some d \<and> (\<exists>p\<in>set projects. 0 < snd p) \<longrightarrow>
      drawnBars (children (XpChart_layout el projects)) =
        take 10 (js_sort (\<lambda>a b. snd b - snd a) projects)"
    using xp by blast
  have c2: "SkillsChart_calculateDimensions el' = Some d' \<and> skillsData \<noteq> [] \<and>
    (\<exists>s\<in>set (SkillsChart_processData skillsData). 0 < skillAmount s) \<longrightarrow>
      map_option (\<lambda>e. drawnBars (children e)) (SkillsChart_render (Some el') skillsData) =
        Some (map (\<lambda>s. (skillName s, skillAmount s))
          (take 10 (js_sort (\<lambda>a b. skillAmount b - skillAmount a)
             (map (\<lambda>(t, a). \<lparr>skillType = ''skill_'' @ t, skillAmount = a\<rparr>)
                (Object_entries (foldl addSkill [] skillsData))))))"
    using sk unfolding SkillsChart_processData_def by blast
  have c5: "mset (js_sort (\<lambda>a b. val b - val a) xs) = mset xs"
    by (rule mset_js_sort)
  have c6: "sorted_wrt (\<lambda>a b. val b \<le> val a) (js_sort (\<lambda>a b. val b - val a) xs)"
    by (rule sorted_js_sort)
  from c1 c2 fr cards c5 c6 st show ?thesis
    by blast
qed

text \<open>
  Claim C3, amended, for two series in an element 500 wide: the three entries \<open>A\<close>,
  \<open>B\<close>, \<open>C\<close>, which give three bars with \<open>B\<close> before \<open>C\<close>; and twelve entries,
  of which the ten largest give the bars, those of equal value in the order of the series.
\<close>

theorem top_n_drawn_witness:
  "drawnBars (children (XpChart_layout
      \<lparr>clientWidth = 500, heightAttribute = None, children = []\<rparr>
      [(''A'', 100), (''B'', 50), (''C'', 50)])) =
     [(''A'', 100), (''B'', 50), (''C'', 50)] \<and>
   drawnBars (children (XpChart_layout
      \<lparr>clientWidth = 500, heightAttribute = None, children = []\<rparr>
      [(''a'', 1), (''b'', 3), (''c'', 2), (''d'', 3), (''e'', 1), (''f'', 2),
       (''g'', 1), (''h'', 4), (''i'', 1), (''j'', 2), (''k'', 1), (''l'', 1)])) =
     [(''h'', 4), (''b'', 3), (''d'', 3), (''c'', 2), (''f'', 2), (''j'', 2),
      (''a'', 1), (''e'', 1), (''g'', 1), (''i'', 1)]"
proof -
  let ?el = "\<lparr>clientWidth = 500, heightAttribute = None, children = []\<rparr>"
  let ?d = "\<lparr>svgWidth = 500, svgHeight = 380, margin = XpChart_margin,
             chartWidth = 400, chartHeight = 220\<rparr>"
  let ?three = "[(''A'', 100::real), (''B'', 50), (''C'', 50)]"
  let ?twelve = "[(''a'', 1::real), (''b'', 3), (''c'', 2), (''d'', 3), (''e'', 1), (''f'', 2),
                  (''g'', 1), (''h'', 4), (''i'', 1), (''j'', 2), (''k'', 1), (''l'', 1)]"
  have d: "XpChart_calculateDimensions ?el = Some ?d"
    by (simp add: XpChart_calculateDimensions_def calculateDimensionsWith_def Let_def
        num_or_def undef_or_def XpChart_margin_def)
  have p3: "\<exists>p\<in>set ?three. 0 < snd p" and p12: "\<exists>p\<in>set ?twelve. 0 < snd p"
    by simp_all
  have s3: "take 10 (js_sort (\<lambda>a b. snd b - snd a) ?three) = ?three"
    by (simp add: js_sort_def)
  have s12: "take 10 (js_sort (\<lambda>a b. snd b - snd a) ?twelve) =
               [(''h'', 4), (''b'', 3), (''d'', 3), (''c'', 2), (''f'', 2), (''j'', 2),
                (''a'', 1), (''e'', 1), (''g'', 1), (''i'', 1)]"
    by (simp add: js_sort_def)
  have "drawnBars (children (XpChart_layout ?el ?three)) =
          take 10 (js_sort (\<lambda>a b. snd b - snd a) ?three)"
    using top_n_drawn[THEN conjunct1, of ?el ?d ?three] d p3 by blast
  then have 1: "drawnBars (children (XpChart_layout ?el ?three)) = ?three"
    by (simp only: s3)
  have "drawnBars (children (XpChart_layout ?el ?twelve)) =
          take 10 (js_sort (\<lambda>a b. snd b - snd a) ?twelve)"
    using top_n_drawn[THEN conjunct1, of ?el ?d ?twelve] d p12 by blast
  then have 2: "drawnBars (children (XpChart_layout ?el ?twelve)) =
             [(''h'', 4), (''b'', 3), (''d'', 3), (''c'', 2), (''f'', 2), (''j'', 2),
              (''a'', 1), (''e'', 1), (''g'', 1), (''i'', 1)]"
    by (simp only: s12)
  from 1 2 show ?thesis by (rule conjI)
qed

section \<open>Charts that cannot be drawn\<close>

text \<open>
  Claim C4, as stated, at an element that is 0 wide and 380 high: the width less the
  margins is not above zero, but the width 0 is replaced by 500 before the test, the
  dimensions are found and the chart is drawn.
\<close>

theorem zero_width_is_not_too_small:
  "clientWidth \<lparr>clientWidth = 0, heightAttribute = Some 380, children = []\<rparr> -
     marginLeft XpChart_margin - marginRight XpChart_margin \<le> 0 \<and>
   XpChart_calculateDimensions \<lparr>clientWidth = 0, heightAttribute = Some 380, children = []\<rparr> \<noteq>
     None \<and>
   children (XpChart_layout \<lparr>clientWidth = 0, heightAttribute = Some 380, children = []\<rparr>
               [(''A'', 100)]) \<noteq>
     [Message ''Chart cannot be rendered (too small).'']"
  by code_simp

text \<open>
  Claim C4, amended. The width of the viewport is the \<open>clientWidth\<close> of the element, or
  500 when that is 0; its height is the number read from the \<open>height\<close> attribute, or the
  default of the chart when that is 0 or not a number. When this width less the left and
  right margins, or this height less the top and bottom margins, is not above zero,
  \<open>calculateDimensions\<close> returns \<open>null\<close>, for any margins; and each chart, given a series
  that is not empty, then shows the message that it is too small and nothing else.
\<close>

theorem too_small_reported:
  assumes "num_or (clientWidth el) 500 - marginLeft m - marginRight m \<le> 0 \<or>
           undef_or (heightAttribute el) dh - marginTop m - marginBottom m \<le> 0"
  shows "calculateDimensionsWith m dh el = None \<and>
         (m = XpChart_margin \<and> dh = 380 \<and> projects \<noteq> [] \<longrightarrow>
            children (XpChart_layout el projects) =
              [Message ''Chart cannot be rendered (too small).'']) \<and>
         (m = SkillsChart_margin \<and> dh = 400 \<and> aggregatedSkills \<noteq> [] \<longrightarrow>
            children (SkillsChart_layout el aggregatedSkills) =
              [Message ''Chart cannot be rendered (too small).''])"
proof -
  have n: "calculateDimensionsWith m dh el = None"
    using assms by (auto simp: calculateDimensionsWith_def Let_def)
  show ?thesis
    using n
    by (auto simp: XpChart_layout_def SkillsChart_layout_def Let_def renderEmptyState_def
        XpChart_calculateDimensions_def SkillsChart_calculateDimensions_def dims_children)
qed

text \<open>
  Claim C4, amended, at the viewport of 10 by 10 with the margins of the XP chart, left 70,
  right 30, top 40 and bottom 120: only the message is shown.
\<close>

theorem too_small_reported_witness:
  "calculateDimensionsWith XpChart_margin 380
     \<lparr>clientWidth = 10, heightAttribute = Some 10, children = []\<rparr> = None \<and>
   children (XpChart_layout \<lparr>clientWidth = 10, heightAttribute = Some 10, children = []\<rparr>
               [(''A'', 100)]) =
     [Message ''Chart cannot be rendered (too small).'']"
proof -
  let ?el = "\<lparr>clientWidth = 10, heightAttribute = Some 10, children = []\<rparr>"
  have h: "num_or (clientWidth ?el) 500 - marginLeft XpChart_margin - marginRight XpChart_margin \<le> 0 \<or>
           undef_or (heightAttribute ?el) 380 - marginTop XpChart_margin - marginBottom XpChart_margin \<le> 0"
    by (simp add: num_or_def XpChart_margin_def)
  from too_small_reported[OF h, of "[(''A'', 100)]" "[]"] show ?thesis by simp
qed

section \<open>The scale\<close>

text \<open>
  Claim C5. For a largest value that is not negative, the position of a value \<open>v\<close> is
  the height of the chart less \<open>v\<close> divided by the effective maximum, times the height;
  the effective maximum is the largest value when that is above zero and 1 otherwise, so
  the divisor is never zero. With the largest value 0, the value 0 sits at the height of
  the chart, the base line.
\<close>

theorem scale_guarded:
  assumes "0 \<le> maxValue"
  shows "XpChart_scaleY ch maxValue v = ch - (v / (if 0 < maxValue then maxValue else 1)) * ch \<and>
         num_or maxValue 1 = (if 0 < maxValue then maxValue else 1) \<and>
         num_or maxValue 1 \<noteq> 0 \<and>
         XpChart_scaleY ch 0 0 = ch"
  using assms by (auto simp: XpChart_scaleY_def num_or_def)

text \<open>Claim C5 at the largest value 0 and a chart 220 high.\<close>

theorem scale_guarded_witness:
  "XpChart_scaleY 220 0 0 = 220 - (0 / (if (0::real) < 0 then 0 else 1)) * 220 \<and>
   num_or 0 1 = (if (0::real) < 0 then 0 else 1) \<and>
   num_or 0 1 \<noteq> 0 \<and>
   XpChart_scaleY 220 0 0 = 220"
proof -
  have h: "(0::real) \<le> 0" by simp
  from scale_guarded[OF h, of 220 0] show ?thesis by simp
qed

section \<open>Collaborators\<close>

text \<open>
  Claim C6 for the user \<open>me\<close> in one group with \<open>alice\<close>: \<open>fetchBestFriends\<close>
  returns the user as a collaborator of the user, with the count 1, before \<open>alice\<close>.
\<close>

theorem collaborators_include_self:
  "fetchBestFriends
      [\<lparr>group = Some \<lparr>members = Some [\<lparr>user = Some \<lparr>login = Some ''me''\<rparr>\<rparr>,
                                        \<lparr>user = Some \<lparr>login = Some ''alice''\<rparr>\<rparr>]\<rparr>\<rparr>] =
     Some [\<lparr>collaboratorLogin = ''me'', collaboratorCount = 1\<rparr>,
           \<lparr>collaboratorLogin = ''alice'', collaboratorCount = 1\<rparr>] \<and>
   ''me'' \<in> set (loginsOf (fetchBestFriends
      [\<lparr>group = Some \<lparr>members = Some [\<lparr>user = Some \<lparr>login = Some ''me''\<rparr>\<rparr>,
                                        \<lparr>user = Some \<lparr>login = Some ''alice''\<rparr>\<rparr>]\<rparr>\<rparr>]))"
  by code_simp

text \<open>
  The counts themselves add up over the groups. When no login is a name that the object
  inherits, every login that is present and not empty in the member lists is in the result
  once, and its count is the sum over the groups of the times the login is in the members
  of the group.
\<close>

lemma collaborator_counts:
  assumes "\<forall>l\<in>set (concat (map groupLogins groups)). \<not> inherited l"
  shows "\<exists>cs. fetchBestFriends groups = Some cs \<and>
           set (map collaboratorLogin cs) = set (concat (map groupLogins groups)) \<and>
           distinct (map collaboratorLogin cs) \<and>
           (\<forall>c\<in>set cs. collaboratorCount c =
              sum_list (map (\<lambda>g. real (count_list (groupLogins g) (collaboratorLogin c))) groups))"
proof -
  let ?ms = "concat (map membersOf groups)"
  let ?L = "concat (map groupLogins groups)"
  let ?mk = "\<lambda>(l, n). \<lparr>collaboratorLogin = l, collaboratorCount = n\<rparr>"
  define counts where
    "counts = foldl (\<lambda>c l. obj_set c l (undef_or (obj_get c l) 0 + 1)) [] ?L"
  have h: "\<forall>l\<in>set (countedLogins ?ms). \<not> inherited l"
    using assms by (simp only: countedLogins_concat)
  have "foldl addMember (asValues []) ?ms = asValues counts"
    unfolding counts_def
    using foldl_addMember_asValues[OF h, of "[]"] by (simp only: countedLogins_concat)
  then have f: "foldl addGroup [] groups = asValues counts"
    by (simp add: foldl_addGroup_flat asValues_def)
  have c': "distinct (map fst counts)"
    and get: "\<And>k. obj_get counts k =
                (if count_list ?L k = 0 then None else Some (real (count_list ?L k)))"
    unfolding counts_def using foldl_count[of "[]" ?L] by (simp_all add: undef_or_zero)
  define cs where
    "cs = js_sort (\<lambda>a b. collaboratorCount b - collaboratorCount a) (map ?mk (Object_entries counts))"
  have res: "fetchBestFriends groups = Some cs"
    by (simp add: fetchBestFriends_def f Object_entries_asValues numericSeries_asValues cs_def)
  have "mset cs = mset (map ?mk (Object_entries counts))"
    unfolding cs_def by (rule mset_js_sort)
  then have ms: "mset cs = image_mset ?mk (mset counts)"
    by (simp add: mset_Object_entries)
  have logins: "mset (map collaboratorLogin cs) = mset (map fst counts)"
  proof -
    have "mset (map collaboratorLogin cs) = image_mset collaboratorLogin (image_mset ?mk (mset counts))"
      using ms by simp
    also have "\<dots> = image_mset fst (mset counts)"
      by (simp add: image_mset.compositionality o_def case_prod_beta)
    finally show ?thesis by simp
  qed
  have dist: "distinct (map collaboratorLogin cs)"
    using logins c' by (metis mset_eq_imp_distinct_iff)
  have keys: "set (map fst counts) = set ?L"
  proof -
    have "k \<in> fst ` set counts \<longleftrightarrow> k \<in> set ?L" for k
      by (simp only: obj_get_keys get count_list_0_iff) simp
    then show ?thesis
      by (simp only: set_map) blast
  qed
  have setl: "set (map collaboratorLogin cs) = set ?L"
    using logins keys by (metis set_mset_mset)
  have cnt: "collaboratorCount c =
               sum_list (map (\<lambda>g. real (count_list (groupLogins g) (collaboratorLogin c))) groups)"
    if "c \<in> set cs" for c
  proof -
    from that have "c \<in># image_mset ?mk (mset counts)" using ms by (metis set_mset_mset)
    then obtain l n where p: "(l, n) \<in> set counts" "c = \<lparr>collaboratorLogin = l, collaboratorCount = n\<rparr>"
      by auto
    then have "obj_get counts l = Some n" using c' by (simp add: obj_get_distinct)
    then have "n = real (count_list ?L l)"
      by (simp add: get split: if_splits)
    then show ?thesis using p by (simp add: count_list_concat)
  qed
  show ?thesis using res dist setl cnt by blast
qed

section \<open>The days of the heatmap\<close>

text \<open>
  Claim C7, as stated, on 2 November 2026 (day 20759): with no activity there are no
  buckets, not 181.
\<close>

theorem no_buckets_without_activity:
  "bucketsOf (displayActivity [] 20759) = [] \<and>
   length (bucketsOf (displayActivity [] 20759)) \<noteq> 181"
  by (simp add: displayActivity_def bucketsOf_def)

text \<open>
  Claim C7, amended. With no activity, on any day, \<open>displayActivity\<close> shows the message
  that no activity data is available and builds no bucket.
\<close>

theorem empty_activity_message:
  "displayActivity [] today = HeatmapMessage ''No activity data available'' \<and>
   bucketsOf (displayActivity [] today) = []"
  by (simp add: displayActivity_def bucketsOf_def)

text \<open>
  With some activity there is one bucket for each day from the day six months before
  today, by the calendar, to today, in ascending order; on 2 November 2026 the first day
  is 2 May 2026 (day 20575), which makes 185 buckets.
\<close>

lemma activity_window_length:
  "activity \<noteq> [] \<Longrightarrow>
   length (bucketsOf (displayActivity activity today)) =
     nat (today + 1 - setMonth today (getMonth today - 6))"
  by (cases activity) (simp_all add: displayActivity_def bucketsOf_def Let_def dayCells_length)

lemma activity_window_example: "setMonth 20759 (getMonth 20759 - 6) = 20575"
  by code_simp

lemma activity_window_days:
  "activity \<noteq> [] \<Longrightarrow>
   map cellDate (bucketsOf (displayActivity activity today)) =
     map isoDate [setMonth today (getMonth today - 6)..today]"
  by (cases activity) (simp_all add: displayActivity_def bucketsOf_def Let_def dayCells_dates)

section \<open>Series of zeros\<close>

text \<open>
  Claim C9. When the series is not empty, all its values are 0 and the dimensions are
  found, each chart shows its own message that all values are zero and nothing else; the
  message differs from the one of a chart that is too small.
\<close>

theorem all_zero_reported:
  assumes "projects \<noteq> []" "\<forall>p\<in>set projects. snd p = 0"
    and "XpChart_calculateDimensions el = Some d"
    and "aggregatedSkills \<noteq> []" "\<forall>s\<in>set aggregatedSkills. skillAmount s = 0"
    and "SkillsChart_calculateDimensions el' = Some d'"
  shows "children (XpChart_layout el projects) = [Message ''All projects have 0 XP''] \<and>
         children (SkillsChart_layout el' aggregatedSkills) =
           [Message ''All skills have 0% progress.''] \<and>
         ''All projects have 0 XP'' \<noteq> ''Chart cannot be rendered (too small).'' \<and>
         ''All skills have 0% progress.'' \<noteq> ''Chart cannot be rendered (too small).''"
proof -
  have z: "Math_max0 (map snd (topProjects projects)) = 0"
    using assms(2) by (intro Math_max0_zero) (auto dest: topProjects_set)
  have d: "XpChart_calculateDimensions (el\<lparr>children := []\<rparr>) = Some d"
    using assms(3) by (simp add: XpChart_calculateDimensions_def dims_children)
  have xp: "children (XpChart_layout el projects) = [Message ''All projects have 0 XP'']"
    using assms(1) z d topProjects_nonempty[OF assms(1)]
    by (simp add: XpChart_layout_def Let_def renderEmptyState_def)
  have z': "Math_max0 (map skillAmount aggregatedSkills) = 0"
    using assms(5) by (intro Math_max0_zero) auto
  have d': "SkillsChart_calculateDimensions (el'\<lparr>children := []\<rparr>) = Some d'"
    using assms(6) by (simp add: SkillsChart_calculateDimensions_def dims_children)
  have sk: "children (SkillsChart_layout el' aggregatedSkills) =
              [Message ''All skills have 0% progress.'']"
    using assms(4) z' d'
    by (simp add: SkillsChart_layout_def Let_def renderEmptyState_def)
  show ?thesis using xp sk by simp
qed

text \<open>
  Claim C9 for two projects and two skills of value 0, in an element 500 wide with no
  height attribute.
\<close>

theorem all_zero_reported_witness:
  "children (XpChart_layout \<lparr>clientWidth = 500, heightAttribute = None, children = []\<rparr>
               [(''A'', 0), (''B'', 0)]) = [Message ''All projects have 0 XP''] \<and>
   children (SkillsChart_layout \<lparr>clientWidth = 500, heightAttribute = None, children = []\<rparr>
               [\<lparr>skillType = ''skill_go'', skillAmount = 0\<rparr>,
                \<lparr>skillType = ''skill_js'', skillAmount = 0\<rparr>]) =
     [Message ''All skills have 0% progress.'']"
proof -
  let ?el = "\<lparr>clientWidth = 500, heightAttribute = None, children = []\<rparr>"
  let ?ps = "[(''A'', 0::real), (''B'', 0)]"
  let ?ss = "[\<lparr>skillType = ''skill_go'', skillAmount = 0\<rparr>,
              \<lparr>skillType = ''skill_js'', skillAmount = 0\<rparr>]"
  have h1: "?ps \<noteq> []" and h2: "\<forall>p\<in>set ?ps. snd p = 0" by simp_all
  have h3: "XpChart_calculateDimensions ?el =
              Some \<lparr>svgWidth = 500, svgHeight = 380, margin = XpChart_margin,
                    chartWidth = 400, chartHeight = 220\<rparr>"
    by (simp add: XpChart_calculateDimensions_def calculateDimensionsWith_def Let_def
        num_or_def undef_or_def XpChart_margin_def)
  have h4: "?ss \<noteq> []" and h5: "\<forall>s\<in>set ?ss. skillAmount s = 0" by simp_all
  have h6: "SkillsChart_calculateDimensions ?el =
              Some \<lparr>svgWidth = 500, svgHeight = 400, margin = SkillsChart_margin,
                    chartWidth = 400, chartHeight = 260\<rparr>"
    by (simp add: SkillsChart_calculateDimensions_def calculateDimensionsWith_def Let_def
        num_or_def undef_or_def SkillsChart_margin_def)
  from all_zero_reported[OF h1 h2 h3 h4 h5 h6] show ?thesis by simp
qed

section \<open>Records without a type\<close>




end
